theory Spec2Isabelle
  imports Complex_Main
begin

section \<open>RVL-Node: the coordinator class of src/index.ts\<close>

text \<open>
  The development embeds the class \<^verbatim>\<open>RVL\<close> of \<^verbatim>\<open>src/index.ts\<close>: its constructor, the
  three receive handlers and the ready callback it hands to the bridge, and its five
  public methods.

  \<^item> A JavaScript \<^verbatim>\<open>number\<close> is a \<^typ>\<open>real\<close>. The class never computes with a number
    (it only stores and forwards them), so rounding, NaN and the
    infinities play no part.
  \<^item> A wave (\<^verbatim>\<open>IWave\<close> of \<^verbatim>\<open>./types\<close>) is a type parameter \<open>'w\<close>: the class copies
    waves and never looks inside one.
  \<^item> The object \<^verbatim>\<open>this\<close> is a record that each operation takes and returns. The
    module-level flag \<^verbatim>\<open>created\<close> and everything the class does to the outside (calls
    into \<^verbatim>\<open>./bridge\<close>, events emitted) live in a second record, the process; the
    outside effects are kept as one trace, in the order the code performs them.
  \<^item> A \<^verbatim>\<open>throw\<close> is a result \<open>Some e\<close> (\<open>Inl e\<close> for the constructor) returned together
    with the state at the moment of the throw.
\<close>

subsection \<open>Data\<close>

type_synonym number = real

datatype mode = controller | receiver

datatype logLevel = log_error | log_info | log_debug

text \<open>
  \<^verbatim>\<open>IWaveParameters\<close>: the destructuring defaults of \<^verbatim>\<open>setWaveParameters\<close> show that
  the two periods may be absent (\<^verbatim>\<open>undefined\<close>), which is \<open>None\<close> here.
\<close>

record 'w IWaveParameters =
  waves :: "'w list"
  timePeriod :: "number option"
  distancePeriod :: "number option"

record IRVLOptions =
  networkInterface :: string
  channel :: number
  port :: "number option"
  mode :: "mode option"
  logLevel :: "logLevel option"
  enableClockSync :: "bool option"

text \<open>The constants and the wave constructor that \<^verbatim>\<open>index.ts\<close> imports from \<^verbatim>\<open>./bridge\<close>.\<close>

record 'w bridge_consts =
  MAX_NUM_WAVES :: nat
  DEFAULT_TIME_PERIOD :: number
  DEFAULT_DISTANCE_PERIOD :: number
  createEmptyWave :: 'w

text \<open>The four events of \<^verbatim>\<open>IEvents\<close>, with their payloads.\<close>

datatype 'w event =
  initialized
| waveParametersUpdated "'w IWaveParameters"
| powerStateUpdated bool
| brightnessUpdated number

text \<open>
  The functions of \<^verbatim>\<open>./bridge\<close> that the class calls. The closures passed to
  \<^verbatim>\<open>init\<close> and to the three \<^verbatim>\<open>listenFor...\<close> functions are the definitions \<open>onReady\<close>,
  \<open>onWaveParameterUpdate\<close>, \<open>onPowerStateUpdate\<close> and \<open>onBrightnessUpdate\<close> below.
\<close>

datatype 'w bridge_call =
  Bridge_init string number mode number logLevel bool
| Bridge_start
| Bridge_stop
| Bridge_setWaveParameters "'w IWaveParameters"
| Bridge_setPowerState bool
| Bridge_setBrightness number
| Bridge_listenForWaveParameterUpdates
| Bridge_listenForPowerStateUpdates
| Bridge_listenForBrightnessUpdates

datatype 'w effect = call "'w bridge_call" | emit "'w event"

text \<open>
  Every error of the class is a plain \<^verbatim>\<open>Error\<close>; the throw sites differ in the message.
  One constructor stands for each message, carrying what the message interpolates:
  \<^item> \<open>AlreadyCreatedError\<close>: "Currently the RVL class can only be instantiated once per
    process." (line 104);
  \<^item> \<open>NotInitializedError name\<close>: "Cannot call "name" until the platform has been
    initialized and the "initialized" event has been emitted" (lines 135, 143, 155);
  \<^item> \<open>WrongRoleError m\<close>: "Cannot set wave parameters while in m mode" (line 159);
  \<^item> \<open>TooManyWavesError n\<close>: "Only n waves are supported at a time" (line 162).
\<close>

datatype rvl_error =
  AlreadyCreatedError
| NotInitializedError string
| WrongRoleError mode
| TooManyWavesError nat

text \<open>The private fields of an \<^verbatim>\<open>RVL\<close> object (the source names start with an underscore).\<close>

record 'w RVL =
  priv_isInitialized :: bool
  priv_waveParameters :: "'w IWaveParameters"
  priv_mode :: mode
  priv_brightness :: number
  priv_powerState :: bool

record 'w process =
  created :: bool
  trace :: "'w effect list"

definition perform :: "'w effect \<Rightarrow> 'w process \<Rightarrow> 'w process" where
  "perform e p = p\<lparr>trace := trace p @ [e]\<rparr>"

subsection \<open>Read accessors\<close>

definition get_waveParameters :: "'w RVL \<Rightarrow> 'w IWaveParameters" where
  "get_waveParameters this = priv_waveParameters this"

definition get_mode :: "'w RVL \<Rightarrow> mode" where
  "get_mode this = priv_mode this"

definition get_powerState :: "'w RVL \<Rightarrow> bool" where
  "get_powerState this = priv_powerState this"

definition get_brightness :: "'w RVL \<Rightarrow> number" where
  "get_brightness this = priv_brightness this"

subsection \<open>The bridge's constructor of wave parameters\<close>

text \<open>
  Modelled from the spec: \<^verbatim>\<open>createEmptyWaveParameters\<close> is a function of \<^verbatim>\<open>./bridge\<close>,
  which is not among the sources. Section 4.1 of the specification gives it as the wave
  parameters whose waves are \<^verbatim>\<open>MAX_NUM_WAVES\<close> empty waves, with the default periods.
\<close>

definition createEmptyWaveParameters :: "'w bridge_consts \<Rightarrow> 'w IWaveParameters" where
  "createEmptyWaveParameters c =
     \<lparr>waves = replicate (MAX_NUM_WAVES c) (createEmptyWave c),
      timePeriod = Some (DEFAULT_TIME_PERIOD c),
      distancePeriod = Some (DEFAULT_DISTANCE_PERIOD c)\<rparr>"

subsection \<open>Constructor, receive handlers and ready callback\<close>

text \<open>
  Lines 94 to 131. A parameter default applies when the option is absent. When
  \<^verbatim>\<open>created\<close> is already set the constructor throws before it assigns a field or
  calls the bridge; the object that \<^verbatim>\<open>super()\<close> allocated is never handed to anyone.
\<close>

definition RVL_constructor ::
  "'w bridge_consts \<Rightarrow> IRVLOptions \<Rightarrow> 'w process \<Rightarrow> (rvl_error + 'w RVL) \<times> 'w process" where
  "RVL_constructor c opts p =
     (if created p then (Inl AlreadyCreatedError, p)
      else
        let port' = (case port opts of None \<Rightarrow> 4978 | Some n \<Rightarrow> n);
            mode' = (case mode opts of None \<Rightarrow> receiver | Some m \<Rightarrow> m);
            logLevel' = (case logLevel opts of None \<Rightarrow> log_info | Some l \<Rightarrow> l);
            enableClockSync' = (case enableClockSync opts of None \<Rightarrow> False | Some b \<Rightarrow> b);
            p1 = p\<lparr>created := True\<rparr>;
            this = \<lparr>priv_isInitialized = False,
                    priv_waveParameters = createEmptyWaveParameters c,
                    priv_mode = mode',
                    priv_brightness = 0,
                    priv_powerState = False\<rparr>;
            p2 = perform (call Bridge_listenForWaveParameterUpdates) p1;
            p3 = perform (call Bridge_listenForPowerStateUpdates) p2;
            p4 = perform (call Bridge_listenForBrightnessUpdates) p3;
            p5 = perform (call (Bridge_init (networkInterface opts) port' mode' (channel opts)
                                  logLevel' enableClockSync')) p4
        in (Inr this, p5))"

text \<open>Lines 111 to 114: the closure given to \<^verbatim>\<open>listenForWaveParameterUpdates\<close>.\<close>

definition onWaveParameterUpdate ::
  "'w IWaveParameters \<Rightarrow> 'w RVL \<times> 'w process \<Rightarrow> 'w RVL \<times> 'w process" where
  "onWaveParameterUpdate newParameters s =
     (case s of (this, p) \<Rightarrow>
        let this1 = this\<lparr>priv_waveParameters := newParameters\<rparr>
        in (this1, perform (emit (waveParametersUpdated (priv_waveParameters this1))) p))"

text \<open>Lines 116 to 119: the closure given to \<^verbatim>\<open>listenForPowerStateUpdates\<close>.\<close>

definition onPowerStateUpdate :: "bool \<Rightarrow> 'w RVL \<times> 'w process \<Rightarrow> 'w RVL \<times> 'w process" where
  "onPowerStateUpdate newPowerState s =
     (case s of (this, p) \<Rightarrow>
        let this1 = this\<lparr>priv_powerState := newPowerState\<rparr>
        in (this1, perform (emit (powerStateUpdated (priv_powerState this1))) p))"

text \<open>Lines 121 to 124: the closure given to \<^verbatim>\<open>listenForBrightnessUpdates\<close>.\<close>

definition onBrightnessUpdate :: "number \<Rightarrow> 'w RVL \<times> 'w process \<Rightarrow> 'w RVL \<times> 'w process" where
  "onBrightnessUpdate newBrightness s =
     (case s of (this, p) \<Rightarrow>
        let this1 = this\<lparr>priv_brightness := newBrightness\<rparr>
        in (this1, perform (emit (brightnessUpdated (priv_brightness this1))) p))"

text \<open>Lines 126 to 130: the callback given to \<^verbatim>\<open>init\<close>, run at each ready signal.\<close>

definition onReady :: "'w RVL \<times> 'w process \<Rightarrow> 'w RVL \<times> 'w process" where
  "onReady s =
     (case s of (this, p) \<Rightarrow>
        let p1 = perform (call (Bridge_setWaveParameters (priv_waveParameters this))) p;
            this1 = this\<lparr>priv_isInitialized := True\<rparr>
        in (this1, perform (emit initialized) p1))"

subsection \<open>Public methods\<close>

text \<open>Lines 133 to 139.\<close>

definition start :: "'w RVL \<times> 'w process \<Rightarrow> rvl_error option \<times> 'w RVL \<times> 'w process" where
  "start s =
     (case s of (this, p) \<Rightarrow>
        if \<not> priv_isInitialized this then (Some (NotInitializedError ''start''), this, p)
        else (None, this, perform (call Bridge_start) p))"

text \<open>Lines 141 to 147.\<close>

definition stop :: "'w RVL \<times> 'w process \<Rightarrow> rvl_error option \<times> 'w RVL \<times> 'w process" where
  "stop s =
     (case s of (this, p) \<Rightarrow>
        if \<not> priv_isInitialized this then (Some (NotInitializedError ''stop''), this, p)
        else (None, this, perform (call Bridge_stop) p))"

text \<open>
  Lines 165 to 167: the padding loop, \<^verbatim>\<open>i\<close> counting up from the length of the cloned
  array. The spread of \<^verbatim>\<open>createEmptyWave()\<close> is a copy of the empty wave.
\<close>

function pad_waves :: "'w bridge_consts \<Rightarrow> nat \<Rightarrow> 'w list \<Rightarrow> 'w list" where
  "pad_waves c i ws =
     (if i < MAX_NUM_WAVES c then pad_waves c (Suc i) (ws @ [createEmptyWave c]) else ws)"
  by pat_completeness auto
termination
  by (relation "measure (\<lambda>(c, i, ws). MAX_NUM_WAVES c - i)") auto

text \<open>Lines 149 to 170.\<close>

definition setWaveParameters ::
  "'w bridge_consts \<Rightarrow> 'w IWaveParameters \<Rightarrow> 'w RVL \<times> 'w process
     \<Rightarrow> rvl_error option \<times> 'w RVL \<times> 'w process" where
  "setWaveParameters c arg s =
     (case s of (this, p) \<Rightarrow>
        let waves0 = waves arg;
            timePeriod' = (case timePeriod arg of None \<Rightarrow> DEFAULT_TIME_PERIOD c | Some t \<Rightarrow> t);
            distancePeriod' =
              (case distancePeriod arg of None \<Rightarrow> DEFAULT_DISTANCE_PERIOD c | Some d \<Rightarrow> d)
        in
        if \<not> priv_isInitialized this
        then (Some (NotInitializedError ''setWaveParameters''), this, p)
        else if priv_mode this \<noteq> controller
        then (Some (WrongRoleError (priv_mode this)), this, p)
        else if length waves0 > MAX_NUM_WAVES c
        then (Some (TooManyWavesError (MAX_NUM_WAVES c)), this, p)
        else
          let waves1 = pad_waves c (length waves0) waves0;
              this1 = this\<lparr>priv_waveParameters :=
                        \<lparr>waves = waves1, timePeriod = Some timePeriod',
                         distancePeriod = Some distancePeriod'\<rparr>\<rparr>
          in (None, this1, perform (call (Bridge_setWaveParameters (priv_waveParameters this1))) p))"

text \<open>Lines 172 to 174.\<close>

definition setPowerState ::
  "bool \<Rightarrow> 'w RVL \<times> 'w process \<Rightarrow> rvl_error option \<times> 'w RVL \<times> 'w process" where
  "setPowerState newPowerState s =
     (case s of (this, p) \<Rightarrow> (None, this, perform (call (Bridge_setPowerState newPowerState)) p))"

text \<open>Lines 176 to 178.\<close>

definition setBrightness ::
  "number \<Rightarrow> 'w RVL \<times> 'w process \<Rightarrow> rvl_error option \<times> 'w RVL \<times> 'w process" where
  "setBrightness newBrightness s =
     (case s of (this, p) \<Rightarrow> (None, this, perform (call (Bridge_setBrightness newBrightness)) p))"

subsection \<open>Runs of a coordinator\<close>

text \<open>
  What can happen to a constructed coordinator: the bridge runs one of the four closures
  it was given, or the application calls one of the five methods. An application that
  catches a thrown error goes on with the state the throw left behind.
\<close>

datatype 'w action =
  Ready
| WaveParametersReceived "'w IWaveParameters"
| PowerStateReceived bool
| BrightnessReceived number
| CallStart
| CallStop
| CallSetWaveParameters "'w IWaveParameters"
| CallSetPowerState bool
| CallSetBrightness number

fun step :: "'w bridge_consts \<Rightarrow> 'w action \<Rightarrow> 'w RVL \<times> 'w process \<Rightarrow> 'w RVL \<times> 'w process" where
  "step c Ready s = onReady s"
| "step c (WaveParametersReceived v) s = onWaveParameterUpdate v s"
| "step c (PowerStateReceived v) s = onPowerStateUpdate v s"
| "step c (BrightnessReceived v) s = onBrightnessUpdate v s"
| "step c CallStart s = snd (start s)"
| "step c CallStop s = snd (stop s)"
| "step c (CallSetWaveParameters v) s = snd (setWaveParameters c v s)"
| "step c (CallSetPowerState v) s = snd (setPowerState v s)"
| "step c (CallSetBrightness v) s = snd (setBrightness v s)"

fun run :: "'w bridge_consts \<Rightarrow> 'w action list \<Rightarrow> 'w RVL \<times> 'w process \<Rightarrow> 'w RVL \<times> 'w process" where
  "run c [] s = s"
| "run c (a # as) s = run c as (step c a s)"

text \<open>A process in which no coordinator has been constructed and nothing has happened.\<close>

definition fresh_process :: "'w process" where
  "fresh_process = \<lparr>created = False, trace = []\<rparr>"

text \<open>The constants of the specification's scenario, with natural numbers as waves.\<close>

definition example_consts :: "nat bridge_consts" where
  "example_consts =
     \<lparr>MAX_NUM_WAVES = 8, DEFAULT_TIME_PERIOD = 255, DEFAULT_DISTANCE_PERIOD = 32,
      createEmptyWave = 0\<rparr>"

definition example_options :: "mode \<Rightarrow> IRVLOptions" where
  "example_options m =
     \<lparr>networkInterface = ''wlan0'', channel = 1, port = None, mode = Some m,
      logLevel = None, enableClockSync = None\<rparr>"

text \<open>
  The coordinator that \<open>RVL_constructor\<close> returns for these constants and options in a
  fresh process, and the process it leaves (\<open>example_construction\<close> below).
\<close>

definition example_new :: "mode \<Rightarrow> nat RVL" where
  "example_new m =
     \<lparr>priv_isInitialized = False,
      priv_waveParameters =
        \<lparr>waves = [0, 0, 0, 0, 0, 0, 0, 0], timePeriod = Some 255, distancePeriod = Some 32\<rparr>,
      priv_mode = m, priv_brightness = 0, priv_powerState = False\<rparr>"

definition example_new_process :: "mode \<Rightarrow> nat process" where
  "example_new_process m =
     \<lparr>created = True,
      trace = [call Bridge_listenForWaveParameterUpdates,
               call Bridge_listenForPowerStateUpdates,
               call Bridge_listenForBrightnessUpdates,
               call (Bridge_init ''wlan0'' 4978 m 1 log_info False)]\<rparr>"

text \<open>A controller after its first ready signal.\<close>

definition example_ready :: "nat RVL \<times> nat process" where
  "example_ready = onReady (example_new controller, example_new_process controller)"

definition two_waves :: "nat IWaveParameters" where
  "two_waves = \<lparr>waves = [1, 2], timePeriod = None, distancePeriod = None\<rparr>"

definition nine_waves :: "nat IWaveParameters" where
  "nine_waves = \<lparr>waves = [1, 2, 3, 4, 5, 6, 7, 8, 9], timePeriod = None, distancePeriod = None\<rparr>"

definition one_wave :: "nat IWaveParameters" where
  "one_wave = \<lparr>waves = [7], timePeriod = Some 1, distancePeriod = Some 1\<rparr>"

definition eight_waves :: "nat IWaveParameters" where
  "eight_waves = \<lparr>waves = [3, 3, 3, 3, 3, 3, 3, 3], timePeriod = Some 1, distancePeriod = Some 1\<rparr>"

section \<open>Properties\<close>

subsection \<open>The padding loop\<close>

lemma pad_waves_replicate:
  "pad_waves c i ws = ws @ replicate (MAX_NUM_WAVES c - i) (createEmptyWave c)"
proof (induction c i ws rule: pad_waves.induct)
  case (1 c i ws)
  show ?case
  proof (cases "i < MAX_NUM_WAVES c")
    case True
    then have "MAX_NUM_WAVES c - i = Suc (MAX_NUM_WAVES c - Suc i)" by simp
    with True "1.IH" show ?thesis
      by (simp add: replicate_app_Cons_same del: pad_waves.simps replicate_Suc
            add: pad_waves.simps [of c i ws] replicate_Suc)
  next
    case False
    then show ?thesis by simp
  qed
qed

lemma setWaveParameters_ok:
  assumes "priv_isInitialized this" and "priv_mode this = controller"
    and "length (waves arg) \<le> MAX_NUM_WAVES c"
  shows "setWaveParameters c arg (this, p) =
     (let wp = \<lparr>waves = waves arg @
                   replicate (MAX_NUM_WAVES c - length (waves arg)) (createEmptyWave c),
                 timePeriod =
                   Some (case timePeriod arg of None \<Rightarrow> DEFAULT_TIME_PERIOD c | Some t \<Rightarrow> t),
                 distancePeriod =
                   Some (case distancePeriod arg of None \<Rightarrow> DEFAULT_DISTANCE_PERIOD c
                         | Some d \<Rightarrow> d)\<rparr>
      in (None, this\<lparr>priv_waveParameters := wp\<rparr>,
          perform (call (Bridge_setWaveParameters wp)) p))"
  using assms by (simp add: setWaveParameters_def Let_def pad_waves_replicate del: pad_waves.simps)

subsection \<open>The constructor\<close>

lemma example_construction:
  "RVL_constructor example_consts (example_options m) fresh_process =
     (Inr (example_new m), example_new_process m)"
  by (simp add: RVL_constructor_def example_consts_def example_options_def fresh_process_def
      example_new_def example_new_process_def createEmptyWaveParameters_def perform_def
      eval_nat_numeral)

lemma constructor_success:
  assumes "RVL_constructor c opts p0 = (Inr this0, p1)"
  shows "\<not> created p0"
    and "this0 = \<lparr>priv_isInitialized = False,
                   priv_waveParameters = createEmptyWaveParameters c,
                   priv_mode = (case mode opts of None \<Rightarrow> receiver | Some m \<Rightarrow> m),
                   priv_brightness = 0, priv_powerState = False\<rparr>"
    and "p1 = p0\<lparr>created := True,
                 trace := trace p0 @
                   [call Bridge_listenForWaveParameterUpdates,
                    call Bridge_listenForPowerStateUpdates,
                    call Bridge_listenForBrightnessUpdates,
                    call (Bridge_init (networkInterface opts)
                            (case port opts of None \<Rightarrow> 4978 | Some n \<Rightarrow> n)
                            (case mode opts of None \<Rightarrow> receiver | Some m \<Rightarrow> m)
                            (channel opts)
                            (case logLevel opts of None \<Rightarrow> log_info | Some l \<Rightarrow> l)
                            (case enableClockSync opts of None \<Rightarrow> False | Some b \<Rightarrow> b))]\<rparr>"
  using assms
  by (auto simp add: RVL_constructor_def Let_def perform_def split: if_splits)

subsection \<open>What a step keeps\<close>

text \<open>Only the ready callback writes \<^verbatim>\<open>_isInitialized\<close>.\<close>

lemma step_isInitialized:
  "a \<noteq> Ready \<Longrightarrow> priv_isInitialized (fst (step c a s)) = priv_isInitialized (fst s)"
  by (cases a; cases s)
     (simp_all add: onWaveParameterUpdate_def onPowerStateUpdate_def onBrightnessUpdate_def
        start_def stop_def setWaveParameters_def setPowerState_def setBrightness_def Let_def
        del: pad_waves.simps)

lemma run_isInitialized:
  "Ready \<notin> set acts \<Longrightarrow> priv_isInitialized (fst (run c acts s)) = priv_isInitialized (fst s)"
  by (induction acts arbitrary: s) (auto simp add: step_isInitialized)

text \<open>Nothing but the constructor writes \<^verbatim>\<open>created\<close>.\<close>

lemma step_created: "created (snd (step c a s)) = created (snd s)"
  by (cases a; cases s)
     (simp_all add: onReady_def onWaveParameterUpdate_def onPowerStateUpdate_def
        onBrightnessUpdate_def start_def stop_def setWaveParameters_def setPowerState_def
        setBrightness_def Let_def perform_def del: pad_waves.simps)

lemma run_created: "created (snd (run c acts s)) = created (snd s)"
  by (induction acts arbitrary: s) (simp_all add: step_created)

text \<open>Only the ready callback emits \<open>initialized\<close>, once each time it runs.\<close>

lemma step_count_initialized:
  "count_list (trace (snd (step c a s))) (emit initialized) =
     count_list (trace (snd s)) (emit initialized) + (if a = Ready then 1 else 0)"
  by (cases a; cases s)
     (simp_all add: onReady_def onWaveParameterUpdate_def onPowerStateUpdate_def
        onBrightnessUpdate_def start_def stop_def setWaveParameters_def setPowerState_def
        setBrightness_def Let_def perform_def del: pad_waves.simps)

lemma run_count_initialized:
  "count_list (trace (snd (run c acts s))) (emit initialized) =
     count_list (trace (snd s)) (emit initialized) + count_list acts Ready"
  by (induction acts arbitrary: s) (simp_all add: step_count_initialized)

text \<open>
  The number of stored waves stays \<^verbatim>\<open>MAX_NUM_WAVES\<close> under every step, provided that a
  wave-parameter notification brings that many.
\<close>

lemma step_length_waves:
  assumes "length (waves (priv_waveParameters (fst s))) = MAX_NUM_WAVES c"
    and "\<And>v. a = WaveParametersReceived v \<Longrightarrow> length (waves v) = MAX_NUM_WAVES c"
  shows "length (waves (priv_waveParameters (fst (step c a s)))) = MAX_NUM_WAVES c"
  using assms
  by (cases a; cases s)
     (simp_all add: onReady_def onWaveParameterUpdate_def onPowerStateUpdate_def
        onBrightnessUpdate_def start_def stop_def setWaveParameters_def setPowerState_def
        setBrightness_def Let_def pad_waves_replicate del: pad_waves.simps)

lemma run_length_waves:
  assumes "length (waves (priv_waveParameters (fst s))) = MAX_NUM_WAVES c"
    and "\<forall>v. WaveParametersReceived v \<in> set acts \<longrightarrow> length (waves v) = MAX_NUM_WAVES c"
  shows "length (waves (priv_waveParameters (fst (run c acts s)))) = MAX_NUM_WAVES c"
  using assms
proof (induction acts arbitrary: s)
  case Nil
  then show ?case by simp
next
  case (Cons a acts)
  have "length (waves (priv_waveParameters (fst (step c a s)))) = MAX_NUM_WAVES c"
    using Cons.prems by (intro step_length_waves) auto
  moreover have "\<forall>v. WaveParametersReceived v \<in> set acts \<longrightarrow> length (waves v) = MAX_NUM_WAVES c"
    using Cons.prems(2) by simp
  ultimately show ?case using Cons.IH by simp
qed

lemma example_ready_eq:
  "example_ready =
     ((example_new controller)\<lparr>priv_isInitialized := True\<rparr>,
      (example_new_process controller)
        \<lparr>trace := trace (example_new_process controller) @
           [call (Bridge_setWaveParameters (priv_waveParameters (example_new controller))),
            emit initialized]\<rparr>)"
  by (simp add: example_ready_def onReady_def Let_def perform_def)

subsection \<open>Setting the wave parameters\<close>

text \<open>
  Claim C1. On an initialized controller, \<open>setWaveParameters\<close> with at most
  \<^verbatim>\<open>MAX_NUM_WAVES\<close> waves returns without an error; afterwards \<^verbatim>\<open>waveParameters.waves\<close>
  has exactly \<^verbatim>\<open>MAX_NUM_WAVES\<close> entries, the first ones are the waves given, in order,
  and all the others are the empty wave; a period that was not supplied is the default
  one (a supplied period is kept).
\<close>

theorem C1_setWaveParameters_pads:
  assumes "priv_isInitialized this" and "priv_mode this = controller"
    and "length (waves arg) \<le> MAX_NUM_WAVES c"
  shows "fst (setWaveParameters c arg (this, p)) = None \<and>
    length (waves (get_waveParameters (fst (snd (setWaveParameters c arg (this, p))))))
      = MAX_NUM_WAVES c \<and>
    take (length (waves arg))
      (waves (get_waveParameters (fst (snd (setWaveParameters c arg (this, p))))))
      = waves arg \<and>
    drop (length (waves arg))
      (waves (get_waveParameters (fst (snd (setWaveParameters c arg (this, p))))))
      = replicate (MAX_NUM_WAVES c - length (waves arg)) (createEmptyWave c) \<and>
    timePeriod (get_waveParameters (fst (snd (setWaveParameters c arg (this, p)))))
      = Some (case timePeriod arg of None \<Rightarrow> DEFAULT_TIME_PERIOD c | Some t \<Rightarrow> t) \<and>
    distancePeriod (get_waveParameters (fst (snd (setWaveParameters c arg (this, p)))))
      = Some (case distancePeriod arg of None \<Rightarrow> DEFAULT_DISTANCE_PERIOD c | Some d \<Rightarrow> d)"
  using assms
  by (simp add: setWaveParameters_ok Let_def get_waveParameters_def)

text \<open>
  Claim C1, the scenario of the specification: two waves on a controller that has
  received its ready signal, with \<^verbatim>\<open>MAX_NUM_WAVES = 8\<close>.
\<close>

theorem C1_setWaveParameters_pads_witness:
  "priv_isInitialized (fst example_ready) \<and>
   priv_mode (fst example_ready) = controller \<and>
   length (waves two_waves) \<le> MAX_NUM_WAVES example_consts \<and>
   fst (setWaveParameters example_consts two_waves example_ready) = None \<and>
   length (waves (get_waveParameters
     (fst (snd (setWaveParameters example_consts two_waves example_ready))))) = 8 \<and>
   take 2 (waves (get_waveParameters
     (fst (snd (setWaveParameters example_consts two_waves example_ready))))) = [1, 2] \<and>
   drop 2 (waves (get_waveParameters
     (fst (snd (setWaveParameters example_consts two_waves example_ready)))))
     = [0, 0, 0, 0, 0, 0] \<and>
   timePeriod (get_waveParameters
     (fst (snd (setWaveParameters example_consts two_waves example_ready)))) = Some 255 \<and>
   distancePeriod (get_waveParameters
     (fst (snd (setWaveParameters example_consts two_waves example_ready)))) = Some 32"
proof -
  have h1: "priv_isInitialized (fst example_ready)"
    by (simp add: example_ready_eq)
  have h2: "priv_mode (fst example_ready) = controller"
    by (simp add: example_ready_eq example_new_def)
  have h3: "length (waves two_waves) \<le> MAX_NUM_WAVES example_consts"
    by (simp add: two_waves_def example_consts_def)
  have arg: "waves two_waves = [1, 2]" "length [1, 2::nat] = 2"
    "timePeriod two_waves = None" "distancePeriod two_waves = None"
    by (simp_all add: two_waves_def)
  have c: "MAX_NUM_WAVES example_consts = 8" "createEmptyWave example_consts = 0"
    "DEFAULT_TIME_PERIOD example_consts = 255" "DEFAULT_DISTANCE_PERIOD example_consts = 32"
    by (simp_all add: example_consts_def)
  have six: "replicate (8 - 2) (0::nat) = [0, 0, 0, 0, 0, 0]"
    by (simp add: eval_nat_numeral)
  have s: "(fst example_ready, snd example_ready) = example_ready"
    by simp
  from C1_setWaveParameters_pads [OF h1 h2 h3, of "snd example_ready",
      unfolded s arg c six option.case]
  show ?thesis using h1 h2 h3 by blast
qed

text \<open>
  Claim C2. On an initialized controller, \<open>setWaveParameters\<close> with more than
  \<^verbatim>\<open>MAX_NUM_WAVES\<close> waves throws the too-many-waves error; the object keeps every field,
  its wave parameters among them, and the process is as before: no call to the bridge
  was made.
\<close>

theorem C2_setWaveParameters_too_many:
  assumes "priv_isInitialized this" and "priv_mode this = controller"
    and "length (waves arg) > MAX_NUM_WAVES c"
  shows "setWaveParameters c arg (this, p) =
           (Some (TooManyWavesError (MAX_NUM_WAVES c)), this, p)"
  using assms by (simp add: setWaveParameters_def Let_def del: pad_waves.simps)

text \<open>Claim C2, with nine waves where eight are allowed.\<close>

theorem C2_setWaveParameters_too_many_witness:
  "priv_isInitialized (fst example_ready) \<and>
   priv_mode (fst example_ready) = controller \<and>
   length (waves nine_waves) > MAX_NUM_WAVES example_consts \<and>
   setWaveParameters example_consts nine_waves example_ready =
     (Some (TooManyWavesError 8), example_ready)"
proof -
  have h1: "priv_isInitialized (fst example_ready)"
    by (simp add: example_ready_eq)
  have h2: "priv_mode (fst example_ready) = controller"
    by (simp add: example_ready_eq example_new_def)
  have h3: "length (waves nine_waves) > MAX_NUM_WAVES example_consts"
    by (simp add: nine_waves_def example_consts_def)
  show ?thesis
    using h1 h2 h3
      C2_setWaveParameters_too_many [OF h1 h2 h3, of "snd example_ready"]
    by (simp add: example_consts_def)
qed

subsection \<open>The lifecycle and role checks\<close>

text \<open>
  Claim C3. While the coordinator is not initialized, each of \<open>start\<close>, \<open>stop\<close> and
  \<open>setWaveParameters\<close> throws the not-initialized error (and changes nothing). By
  \<open>run_isInitialized\<close> that is the case for a constructed coordinator as long as the
  ready callback, which alone emits \<open>initialized\<close>, has not run.
\<close>

theorem C3_not_initialized:
  assumes "\<not> priv_isInitialized this"
  shows "start (this, p) = (Some (NotInitializedError ''start''), this, p) \<and>
         stop (this, p) = (Some (NotInitializedError ''stop''), this, p) \<and>
         setWaveParameters c arg (this, p) =
           (Some (NotInitializedError ''setWaveParameters''), this, p)"
  using assms by (simp add: start_def stop_def setWaveParameters_def Let_def del: pad_waves.simps)

text \<open>Claim C3, on a newly constructed controller.\<close>

theorem C3_not_initialized_witness:
  "priv_isInitialized (example_new controller) = False \<and>
   start (example_new controller, example_new_process controller) =
     (Some (NotInitializedError ''start''),
      example_new controller, example_new_process controller) \<and>
   stop (example_new controller, example_new_process controller) =
     (Some (NotInitializedError ''stop''),
      example_new controller, example_new_process controller) \<and>
   setWaveParameters example_consts two_waves
       (example_new controller, example_new_process controller) =
     (Some (NotInitializedError ''setWaveParameters''),
      example_new controller, example_new_process controller)"
proof -
  have h: "\<not> priv_isInitialized (example_new controller)"
    by (simp add: example_new_def)
  show ?thesis
    using h C3_not_initialized [OF h, of "example_new_process controller" example_consts two_waves]
    by simp
qed

text \<open>
  Claim C4, amended. \<open>setWaveParameters\<close> on a receiver always throws and changes
  nothing: the wrong-role error when the receiver is initialized, the not-initialized
  error when it is not, since the lifecycle check of lines 154 to 157 comes before the
  role check of lines 158 to 160.
\<close>

theorem C4_receiver_setWaveParameters:
  assumes "priv_mode this = receiver"
  shows "setWaveParameters c arg (this, p) =
     (Some (if priv_isInitialized this then WrongRoleError receiver
            else NotInitializedError ''setWaveParameters''), this, p)"
  using assms by (simp add: setWaveParameters_def Let_def del: pad_waves.simps)

text \<open>Claim C4, amended, on a receiver after its ready signal and on a new one.\<close>

theorem C4_receiver_setWaveParameters_witness:
  "priv_mode (fst (onReady (example_new receiver, example_new_process receiver))) = receiver \<and>
   fst (setWaveParameters example_consts two_waves
          (onReady (example_new receiver, example_new_process receiver))) =
     Some (WrongRoleError receiver) \<and>
   priv_mode (example_new receiver) = receiver \<and>
   fst (setWaveParameters example_consts two_waves
          (example_new receiver, example_new_process receiver)) =
     Some (NotInitializedError ''setWaveParameters'')"
proof -
  have h1: "priv_mode (fst (onReady (example_new receiver, example_new_process receiver))) = receiver"
    by (simp add: onReady_def Let_def example_new_def)
  have h2: "priv_mode (example_new receiver) = receiver"
    by (simp add: example_new_def)
  have i1: "priv_isInitialized (fst (onReady (example_new receiver, example_new_process receiver)))"
    by (simp add: onReady_def Let_def)
  have i2: "\<not> priv_isInitialized (example_new receiver)"
    by (simp add: example_new_def)
  show ?thesis
    using h1 h2 i1 i2
      C4_receiver_setWaveParameters [OF h1, of example_consts two_waves
        "snd (onReady (example_new receiver, example_new_process receiver))"]
      C4_receiver_setWaveParameters [OF h2, of example_consts two_waves
        "example_new_process receiver"]
    by simp
qed

text \<open>
  Claim C4 as stated fails: a newly constructed receiver, not yet initialized, answers
  \<open>setWaveParameters\<close> with the not-initialized error, not with the wrong-role error.
\<close>

theorem C4_counterexample:
  "RVL_constructor example_consts (example_options receiver) fresh_process =
     (Inr (example_new receiver), example_new_process receiver) \<and>
   priv_mode (example_new receiver) = receiver \<and>
   fst (setWaveParameters example_consts two_waves
          (example_new receiver, example_new_process receiver)) =
     Some (NotInitializedError ''setWaveParameters'') \<and>
   fst (setWaveParameters example_consts two_waves
          (example_new receiver, example_new_process receiver)) \<noteq>
     Some (WrongRoleError receiver)"
  by (simp add: example_construction setWaveParameters_def Let_def example_new_def
      del: pad_waves.simps)

subsection \<open>The number of stored waves\<close>

text \<open>
  Claim C5, amended. After construction, and after any sequence of ready signals,
  notifications and method calls in which every wave-parameter notification from the
  bridge carries exactly \<^verbatim>\<open>MAX_NUM_WAVES\<close> waves, \<^verbatim>\<open>waveParameters.waves\<close> has exactly
  \<^verbatim>\<open>MAX_NUM_WAVES\<close> entries. (The handler of lines 111 to 114 stores what the bridge
  delivers as it is.)
\<close>

theorem C5_waves_length_invariant:
  assumes "RVL_constructor c opts p0 = (Inr this0, p1)"
    and "\<forall>v. WaveParametersReceived v \<in> set acts \<longrightarrow> length (waves v) = MAX_NUM_WAVES c"
  shows "length (waves (get_waveParameters (fst (run c acts (this0, p1))))) = MAX_NUM_WAVES c"
proof -
  have "length (waves (priv_waveParameters (fst (this0, p1)))) = MAX_NUM_WAVES c"
    using constructor_success(2) [OF assms(1)] by (simp add: createEmptyWaveParameters_def)
  from run_length_waves [OF this assms(2)] show ?thesis
    by (simp add: get_waveParameters_def)
qed

text \<open>
  Claim C5, amended, on a run with a rejected call, a ready signal, an accepted call
  and a notification of eight waves.
\<close>

theorem C5_waves_length_invariant_witness:
  "length (waves (get_waveParameters (fst (run example_consts
      [CallSetWaveParameters nine_waves, Ready, CallSetWaveParameters two_waves,
       WaveParametersReceived eight_waves, PowerStateReceived True]
      (example_new controller, example_new_process controller))))) = 8"
proof -
  have h: "\<forall>v. WaveParametersReceived v \<in>
        set [CallSetWaveParameters nine_waves, Ready, CallSetWaveParameters two_waves,
             WaveParametersReceived eight_waves, PowerStateReceived True]
      \<longrightarrow> length (waves v) = MAX_NUM_WAVES example_consts"
    by (simp add: eight_waves_def example_consts_def)
  have c: "MAX_NUM_WAVES example_consts = 8"
    by (simp add: example_consts_def)
  from C5_waves_length_invariant [OF example_construction [of controller] h, unfolded c]
  show ?thesis .
qed

text \<open>
  Claim C5 as stated fails: a notification that carries a single wave leaves the newly
  constructed coordinator with one stored wave where \<^verbatim>\<open>MAX_NUM_WAVES\<close> is eight.
\<close>

theorem C5_counterexample:
  "RVL_constructor example_consts (example_options receiver) fresh_process =
     (Inr (example_new receiver), example_new_process receiver) \<and>
   length (waves (get_waveParameters (fst (run example_consts [WaveParametersReceived one_wave]
      (example_new receiver, example_new_process receiver))))) = 1 \<and>
   length (waves (get_waveParameters (fst (run example_consts [WaveParametersReceived one_wave]
      (example_new receiver, example_new_process receiver))))) \<noteq> MAX_NUM_WAVES example_consts"
proof -
  have "length (waves (get_waveParameters (fst (run example_consts
      [WaveParametersReceived one_wave]
      (example_new receiver, example_new_process receiver))))) = 1"
    by (simp add: onWaveParameterUpdate_def Let_def get_waveParameters_def one_wave_def)
  moreover have "MAX_NUM_WAVES example_consts = 8"
    by (simp add: example_consts_def)
  ultimately show ?thesis
    using example_construction [of receiver] by simp
qed

subsection \<open>The ready signal\<close>

text \<open>
  Claim C6, amended. At the ready signal that follows construction the coordinator
  pushes its wave parameters, still the default ones, to the bridge, then sets the
  lifecycle to initialized, then emits \<open>initialized\<close>. The callback does so at every
  ready signal: over any run of a constructed coordinator the number of \<open>initialized\<close>
  events emitted equals the number of ready signals received, so the event is emitted
  exactly once when the bridge signals ready exactly once.
\<close>

theorem C6_initialized_per_ready:
  assumes "RVL_constructor c opts p0 = (Inr this0, p1)"
  shows "onReady (this0, p1) =
           (this0\<lparr>priv_isInitialized := True\<rparr>,
            p1\<lparr>trace := trace p1 @
                 [call (Bridge_setWaveParameters (createEmptyWaveParameters c)),
                  emit initialized]\<rparr>) \<and>
         count_list (trace (snd (run c acts (this0, p1)))) (emit initialized) =
           count_list (trace p0) (emit initialized) + count_list acts Ready"
proof -
  have "count_list (trace p1) (emit initialized) = count_list (trace p0) (emit initialized)"
    using constructor_success(3) [OF assms] by simp
  moreover have "priv_waveParameters this0 = createEmptyWaveParameters c"
    using constructor_success(2) [OF assms] by simp
  ultimately show ?thesis
    by (simp add: run_count_initialized onReady_def Let_def perform_def)
qed

text \<open>Claim C6, amended, on a run with one ready signal: one \<open>initialized\<close> event.\<close>

theorem C6_initialized_per_ready_witness:
  "priv_isInitialized (fst (onReady (example_new controller, example_new_process controller))) \<and>
   count_list (trace (snd (run example_consts [PowerStateReceived True, Ready, CallStart]
      (example_new controller, example_new_process controller)))) (emit initialized) = 1"
proof -
  have t: "count_list (trace (fresh_process :: nat process)) (emit initialized) = 0"
    by (simp add: fresh_process_def)
  have a: "count_list [PowerStateReceived True, Ready, CallStart :: nat action] Ready = 1"
    by simp
  from C6_initialized_per_ready [OF example_construction [of controller],
      where acts = "[PowerStateReceived True, Ready, CallStart]", unfolded t a]
  show ?thesis by simp
qed

text \<open>
  Claim C6 as stated fails: when the bridge signals ready a second time the coordinator
  emits \<open>initialized\<close> a second time.
\<close>

theorem C6_counterexample:
  "RVL_constructor example_consts (example_options controller) fresh_process =
     (Inr (example_new controller), example_new_process controller) \<and>
   count_list (trace (snd (run example_consts [Ready]
      (example_new controller, example_new_process controller)))) (emit initialized) = 1 \<and>
   count_list (trace (snd (run example_consts [Ready, Ready]
      (example_new controller, example_new_process controller)))) (emit initialized) = 2"
proof -
  have "count_list (trace (snd (run example_consts [Ready]
      (example_new controller, example_new_process controller)))) (emit initialized) = 1"
    by (simp add: onReady_def Let_def perform_def example_new_process_def)
  moreover have "count_list (trace (snd (run example_consts [Ready, Ready]
      (example_new controller, example_new_process controller)))) (emit initialized) = 2"
    by (simp add: onReady_def Let_def perform_def example_new_process_def)
  ultimately show ?thesis
    using example_construction [of controller] by simp
qed

subsection \<open>Notifications from the bridge\<close>

text \<open>
  Claim C7. When the bridge runs a receive handler with a value, the coordinator stores
  the value in the matching field, emits the matching event with that value as payload,
  and the matching accessor returns the value: for the power state, the brightness and
  the wave parameters.
\<close>

theorem C7_receive_handlers:
  "onPowerStateUpdate b (this, p) =
     (this\<lparr>priv_powerState := b\<rparr>, p\<lparr>trace := trace p @ [emit (powerStateUpdated b)]\<rparr>) \<and>
   get_powerState (fst (onPowerStateUpdate b (this, p))) = b \<and>
   onBrightnessUpdate n (this, p) =
     (this\<lparr>priv_brightness := n\<rparr>, p\<lparr>trace := trace p @ [emit (brightnessUpdated n)]\<rparr>) \<and>
   get_brightness (fst (onBrightnessUpdate n (this, p))) = n \<and>
   onWaveParameterUpdate w (this, p) =
     (this\<lparr>priv_waveParameters := w\<rparr>,
      p\<lparr>trace := trace p @ [emit (waveParametersUpdated w)]\<rparr>) \<and>
   get_waveParameters (fst (onWaveParameterUpdate w (this, p))) = w"
  by (simp add: onPowerStateUpdate_def onBrightnessUpdate_def onWaveParameterUpdate_def
      get_powerState_def get_brightness_def get_waveParameters_def perform_def Let_def)

subsection \<open>Power state and brightness\<close>

text \<open>
  Claim C8. In every state, initialized or not, \<open>setPowerState\<close> and \<open>setBrightness\<close>
  return without an error, their only effect is the call that hands the value to the
  bridge (taken not to throw), and the object keeps every field; the \<^verbatim>\<open>powerState\<close> and
  \<^verbatim>\<open>brightness\<close> accessors return what they returned before.
\<close>

theorem C8_pass_through:
  "setPowerState b (this, p) =
     (None, this, p\<lparr>trace := trace p @ [call (Bridge_setPowerState b)]\<rparr>) \<and>
   setBrightness n (this, p) =
     (None, this, p\<lparr>trace := trace p @ [call (Bridge_setBrightness n)]\<rparr>) \<and>
   get_powerState (fst (snd (setPowerState b (this, p)))) = get_powerState this \<and>
   get_brightness (fst (snd (setPowerState b (this, p)))) = get_brightness this \<and>
   get_powerState (fst (snd (setBrightness n (this, p)))) = get_powerState this \<and>
   get_brightness (fst (snd (setBrightness n (this, p)))) = get_brightness this"
  by (simp add: setPowerState_def setBrightness_def perform_def)

subsection \<open>One coordinator in a process\<close>

text \<open>
  Claim C9. Once a coordinator has been constructed, and whatever has happened to it
  since, constructing another one throws the already-created error and leaves the
  process as it was: the flag, and the trace, to which no call is added, so that the
  handlers registered with the bridge are still those of the first coordinator. The
  first coordinator is not an argument of the throwing constructor, which reads the flag
  and nothing else.
\<close>

theorem C9_second_construction_fails:
  assumes "RVL_constructor c opts1 p0 = (Inr this0, p1)"
    and "run c acts (this0, p1) = (this, p)"
  shows "RVL_constructor c opts2 p = (Inl AlreadyCreatedError, p)"
proof -
  have "created p1" using constructor_success(3) [OF assms(1)] by simp
  then have "created p" using run_created [of c acts "(this0, p1)"] assms(2) by simp
  then show ?thesis by (simp add: RVL_constructor_def)
qed

text \<open>Claim C9, with a second construction after the first coordinator was started.\<close>

theorem C9_second_construction_fails_witness:
  "RVL_constructor example_consts (example_options receiver)
     (snd (run example_consts [Ready, CallStart]
        (example_new controller, example_new_process controller))) =
   (Inl AlreadyCreatedError,
    snd (run example_consts [Ready, CallStart]
        (example_new controller, example_new_process controller)))"
proof -
  have r: "run example_consts [Ready, CallStart]
             (example_new controller, example_new_process controller) =
           (fst (run example_consts [Ready, CallStart]
                  (example_new controller, example_new_process controller)),
            snd (run example_consts [Ready, CallStart]
                  (example_new controller, example_new_process controller)))"
    by simp
  from C9_second_construction_fails [OF example_construction [of controller] r]
  show ?thesis .
qed

subsection \<open>Notifications before the ready signal\<close>

text \<open>
  Claim C10. In a process without a coordinator the constructor succeeds, and what it
  does to the bridge is, in this order, to register the three receive handlers and then
  to call \<^verbatim>\<open>init\<close>. After any later notifications and method calls without a ready
  signal the coordinator is still not initialized, and each handler nevertheless stores
  the value it is given, so that the matching accessor returns it, and emits the
  matching event.
\<close>

theorem C10_handlers_not_gated:
  assumes "\<not> created p0" and "Ready \<notin> set acts"
  shows "\<exists>this0 p1 this p.
     RVL_constructor c opts p0 = (Inr this0, p1) \<and>
     trace p1 = trace p0 @
       [call Bridge_listenForWaveParameterUpdates,
        call Bridge_listenForPowerStateUpdates,
        call Bridge_listenForBrightnessUpdates,
        call (Bridge_init (networkInterface opts)
                (case port opts of None \<Rightarrow> 4978 | Some n \<Rightarrow> n)
                (case mode opts of None \<Rightarrow> receiver | Some m \<Rightarrow> m)
                (channel opts)
                (case logLevel opts of None \<Rightarrow> log_info | Some l \<Rightarrow> l)
                (case enableClockSync opts of None \<Rightarrow> False | Some b \<Rightarrow> b))] \<and>
     priv_isInitialized this0 = False \<and>
     run c acts (this0, p1) = (this, p) \<and>
     priv_isInitialized this = False \<and>
     onWaveParameterUpdate w (this, p) =
       (this\<lparr>priv_waveParameters := w\<rparr>,
        p\<lparr>trace := trace p @ [emit (waveParametersUpdated w)]\<rparr>) \<and>
     get_waveParameters (fst (onWaveParameterUpdate w (this, p))) = w \<and>
     onPowerStateUpdate b (this, p) =
       (this\<lparr>priv_powerState := b\<rparr>, p\<lparr>trace := trace p @ [emit (powerStateUpdated b)]\<rparr>) \<and>
     get_powerState (fst (onPowerStateUpdate b (this, p))) = b \<and>
     onBrightnessUpdate n (this, p) =
       (this\<lparr>priv_brightness := n\<rparr>, p\<lparr>trace := trace p @ [emit (brightnessUpdated n)]\<rparr>) \<and>
     get_brightness (fst (onBrightnessUpdate n (this, p))) = n"
proof -
  obtain this0 p1 where k: "RVL_constructor c opts p0 = (Inr this0, p1)"
    using assms(1) by (simp add: RVL_constructor_def Let_def)
  obtain this p where r: "run c acts (this0, p1) = (this, p)"
    by (cases "run c acts (this0, p1)")
  have i0: "priv_isInitialized this0 = False"
    using constructor_success(2) [OF k] by simp
  have i: "priv_isInitialized this = False"
    using run_isInitialized [OF assms(2), of c "(this0, p1)"] r i0 by simp
  have t: "trace p1 = trace p0 @
       [call Bridge_listenForWaveParameterUpdates,
        call Bridge_listenForPowerStateUpdates,
        call Bridge_listenForBrightnessUpdates,
        call (Bridge_init (networkInterface opts)
                (case port opts of None \<Rightarrow> 4978 | Some n \<Rightarrow> n)
                (case mode opts of None \<Rightarrow> receiver | Some m \<Rightarrow> m)
                (channel opts)
                (case logLevel opts of None \<Rightarrow> log_info | Some l \<Rightarrow> l)
                (case enableClockSync opts of None \<Rightarrow> False | Some b \<Rightarrow> b))]"
    using constructor_success(3) [OF k] by simp
  have h: "onWaveParameterUpdate w (this, p) =
       (this\<lparr>priv_waveParameters := w\<rparr>,
        p\<lparr>trace := trace p @ [emit (waveParametersUpdated w)]\<rparr>)"
    "onPowerStateUpdate b (this, p) =
       (this\<lparr>priv_powerState := b\<rparr>, p\<lparr>trace := trace p @ [emit (powerStateUpdated b)]\<rparr>)"
    "onBrightnessUpdate n (this, p) =
       (this\<lparr>priv_brightness := n\<rparr>, p\<lparr>trace := trace p @ [emit (brightnessUpdated n)]\<rparr>)"
    by (simp_all add: onPowerStateUpdate_def onBrightnessUpdate_def onWaveParameterUpdate_def
        perform_def Let_def)
  have g: "get_waveParameters (fst (onWaveParameterUpdate w (this, p))) = w"
    "get_powerState (fst (onPowerStateUpdate b (this, p))) = b"
    "get_brightness (fst (onBrightnessUpdate n (this, p))) = n"
    by (simp_all add: h get_waveParameters_def get_powerState_def get_brightness_def)
  from k t i0 r i h g show ?thesis by blast
qed

text \<open>
  Claim C10, on a receiver constructed in a fresh process: the constructor succeeds and
  its four bridge calls are the three registrations followed by \<^verbatim>\<open>init\<close>; after a
  rejected \<open>start\<close> and a brightness notification the receiver is still not initialized,
  the brightness notification was stored, and a power-state notification is stored and
  emitted.
\<close>

theorem C10_handlers_not_gated_witness:
  "created (fresh_process :: nat process) = False \<and>
   RVL_constructor example_consts (example_options receiver) fresh_process =
     (Inr (example_new receiver), example_new_process receiver) \<and>
   trace (example_new_process receiver) =
     [call Bridge_listenForWaveParameterUpdates,
      call Bridge_listenForPowerStateUpdates,
      call Bridge_listenForBrightnessUpdates,
      call (Bridge_init ''wlan0'' 4978 receiver 1 log_info False)] \<and>
   fst (start (example_new receiver, example_new_process receiver)) =
     Some (NotInitializedError ''start'') \<and>
   priv_isInitialized (fst (run example_consts [CallStart, BrightnessReceived 5]
      (example_new receiver, example_new_process receiver))) = False \<and>
   get_brightness (fst (run example_consts [CallStart, BrightnessReceived 5]
      (example_new receiver, example_new_process receiver))) = 5 \<and>
   get_powerState (fst (onPowerStateUpdate True
      (run example_consts [CallStart, BrightnessReceived 5]
         (example_new receiver, example_new_process receiver)))) = True \<and>
   trace (snd (onPowerStateUpdate True
      (run example_consts [CallStart, BrightnessReceived 5]
         (example_new receiver, example_new_process receiver)))) =
     trace (snd (run example_consts [CallStart, BrightnessReceived 5]
         (example_new receiver, example_new_process receiver))) @
     [emit (powerStateUpdated True)]"
proof -
  have a: "\<not> created (fresh_process :: nat process)"
    by (simp add: fresh_process_def)
  have b: "Ready \<notin> set [CallStart, BrightnessReceived 5 :: nat action]"
    by simp
  from C10_handlers_not_gated [OF a b, where c = example_consts
      and opts = "example_options receiver" and b = True]
  obtain this0 p1 this p where
    k: "RVL_constructor example_consts (example_options receiver) fresh_process = (Inr this0, p1)"
    and t: "trace p1 = trace (fresh_process :: nat process) @
       [call Bridge_listenForWaveParameterUpdates,
        call Bridge_listenForPowerStateUpdates,
        call Bridge_listenForBrightnessUpdates,
        call (Bridge_init (networkInterface (example_options receiver))
                (case port (example_options receiver) of None \<Rightarrow> 4978 | Some n \<Rightarrow> n)
                (case mode (example_options receiver) of None \<Rightarrow> receiver | Some m \<Rightarrow> m)
                (channel (example_options receiver))
                (case logLevel (example_options receiver) of None \<Rightarrow> log_info | Some l \<Rightarrow> l)
                (case enableClockSync (example_options receiver) of None \<Rightarrow> False
                 | Some b \<Rightarrow> b))]"
    and r: "run example_consts [CallStart, BrightnessReceived 5] (this0, p1) = (this, p)"
    and i: "priv_isInitialized this = False"
    and h: "onPowerStateUpdate True (this, p) =
       (this\<lparr>priv_powerState := True\<rparr>, p\<lparr>trace := trace p @ [emit (powerStateUpdated True)]\<rparr>)"
    and g: "get_powerState (fst (onPowerStateUpdate True (this, p))) = True"
    by blast
  have e: "this0 = example_new receiver" "p1 = example_new_process receiver"
    using k example_construction [of receiver] by simp_all
  have t': "trace (example_new_process receiver) =
     [call Bridge_listenForWaveParameterUpdates,
      call Bridge_listenForPowerStateUpdates,
      call Bridge_listenForBrightnessUpdates,
      call (Bridge_init ''wlan0'' 4978 receiver 1 log_info False)]"
    using t unfolding e by (simp add: fresh_process_def example_options_def)
  have s: "fst (start (example_new receiver, example_new_process receiver)) =
     Some (NotInitializedError ''start'')"
    by (simp add: start_def example_new_def)
  have br: "get_brightness (fst (run example_consts [CallStart, BrightnessReceived 5]
      (example_new receiver, example_new_process receiver))) = 5"
    by (simp add: start_def onBrightnessUpdate_def Let_def get_brightness_def example_new_def)
  have tr: "trace (snd (onPowerStateUpdate True (this, p))) =
      trace p @ [emit (powerStateUpdated True)]"
    by (simp add: h)
  show ?thesis
    using a k [unfolded e] t' s i g tr br r [unfolded e]
    by simp
qed

end
